theory Spec2Isabelle
  imports Complex_Main "HOL-Library.Word"
begin

section \<open>Values of the host language\<close>

text \<open>
  The two scripts compute with JavaScript numbers and with the bytes of a
  \<^verbatim>\<open>Uint8Array\<close>. A byte is an 8-bit word. A number is modelled as an exact
  real together with the three non-finite values of the language, so that a
  division by zero is a value of the model (\<open>0/0\<close> is \<open>NaN\<close>, \<open>x/0\<close> is an
  infinity) and not the arbitrary total result of HOL's \<open>/\<close>. Two things of
  the double-precision format are abstracted: finite results are not rounded,
  and the sign of a zero is not kept (every zero divisor below is a length, a
  window size or a literal, hence the positive zero).
\<close>

type_synonym byte = "8 word"

datatype number = Fin real | PInf | NInf | NaN

fun nneg :: "number \<Rightarrow> number" where
  "nneg (Fin a) = Fin (- a)"
| "nneg PInf = NInf"
| "nneg NInf = PInf"
| "nneg NaN = NaN"

fun nadd :: "number \<Rightarrow> number \<Rightarrow> number" where
  "nadd (Fin a) (Fin b) = Fin (a + b)"
| "nadd NaN y = NaN"
| "nadd x NaN = NaN"
| "nadd PInf NInf = NaN"
| "nadd NInf PInf = NaN"
| "nadd PInf y = PInf"
| "nadd NInf y = NInf"
| "nadd x PInf = PInf"
| "nadd x NInf = NInf"

definition nsub :: "number \<Rightarrow> number \<Rightarrow> number" where
  "nsub x y = nadd x (nneg y)"

fun nmul :: "number \<Rightarrow> number \<Rightarrow> number" where
  "nmul (Fin a) (Fin b) = Fin (a * b)"
| "nmul NaN y = NaN"
| "nmul x NaN = NaN"
| "nmul (Fin a) PInf = (if a = 0 then NaN else if 0 < a then PInf else NInf)"
| "nmul (Fin a) NInf = (if a = 0 then NaN else if 0 < a then NInf else PInf)"
| "nmul PInf (Fin b) = (if b = 0 then NaN else if 0 < b then PInf else NInf)"
| "nmul NInf (Fin b) = (if b = 0 then NaN else if 0 < b then NInf else PInf)"
| "nmul PInf PInf = PInf"
| "nmul PInf NInf = NInf"
| "nmul NInf PInf = NInf"
| "nmul NInf NInf = PInf"

fun ndiv :: "number \<Rightarrow> number \<Rightarrow> number" where
  "ndiv (Fin a) (Fin b) =
     (if b \<noteq> 0 then Fin (a / b)
      else if a = 0 then NaN
      else if 0 < a then PInf else NInf)"
| "ndiv NaN y = NaN"
| "ndiv x NaN = NaN"
| "ndiv (Fin a) PInf = Fin 0"
| "ndiv (Fin a) NInf = Fin 0"
| "ndiv PInf (Fin b) = (if 0 \<le> b then PInf else NInf)"
| "ndiv NInf (Fin b) = (if 0 \<le> b then NInf else PInf)"
| "ndiv PInf PInf = NaN"
| "ndiv PInf NInf = NaN"
| "ndiv NInf PInf = NaN"
| "ndiv NInf NInf = NaN"

text \<open>The number read from a byte of a typed array, and from an array length.\<close>

definition byte_value :: "byte \<Rightarrow> real" where
  "byte_value b = real (unat b)"

section \<open>Feature extraction\<close>

text \<open>
  \<^verbatim>\<open>dataArray.reduce((a, b) => a + b, 0)\<close>: a left fold from 0. The sum of
  bytes is an integer below \<open>2^53\<close> for every array a browser can allocate, so
  the additions are exact and the accumulator is a natural number.
\<close>

definition reduce_sum :: "byte list \<Rightarrow> nat" where
  "reduce_sum dataArray = foldl (\<lambda>a b. a + unat b) 0 dataArray"

text \<open>\<^verbatim>\<open>getAverageFrequency\<close> of the sphere script: \<^verbatim>\<open>sum / dataArray.length\<close>.\<close>

definition getAverageFrequency :: "byte list \<Rightarrow> number" where
  "getAverageFrequency dataArray =
     (let sum = reduce_sum dataArray
      in ndiv (Fin (real sum)) (Fin (real (length dataArray))))"

text \<open>
  \<^verbatim>\<open>Math.max(...dataArray)\<close>: the largest argument, and \<open>-Infinity\<close> when
  there is none.
\<close>

definition Math_max :: "byte list \<Rightarrow> number" where
  "Math_max dataArray =
     (case dataArray of
        [] \<Rightarrow> NInf
      | b # rest \<Rightarrow> Fin (real (foldl max (unat b) (map unat rest))))"

text \<open>
  \<^verbatim>\<open>dataArray.indexOf(v)\<close>: a scan from the left that returns the first index
  whose element equals \<open>v\<close>, and \<open>-1\<close> when no element does.
\<close>

fun indexOf_from :: "nat \<Rightarrow> byte list \<Rightarrow> number \<Rightarrow> int" where
  "indexOf_from i [] v = - 1"
| "indexOf_from i (b # rest) v =
     (if Fin (byte_value b) = v then int i else indexOf_from (Suc i) rest v)"

definition indexOf :: "byte list \<Rightarrow> number \<Rightarrow> int" where
  "indexOf dataArray v = indexOf_from 0 dataArray v"

text \<open>
  A colour is either the CSS string \<^verbatim>\<open>hsl(h, s%, l%)\<close> built by the rose
  script, the triple given to \<^verbatim>\<open>setHSL\<close> by the sphere script, or the
  hexadecimal literal the sphere's material starts with. In each case only the
  numbers are kept.
\<close>

datatype color = Hsl number real real | Hex nat

definition pitchHue :: "byte list \<Rightarrow> number" where
  "pitchHue dataArray =
     (let maxIndex = indexOf dataArray (Math_max dataArray)
      in nmul (ndiv (Fin (real_of_int maxIndex)) (Fin (real (length dataArray)))) (Fin 360))"

definition getPitchColor :: "byte list \<Rightarrow> color" where
  "getPitchColor dataArray = Hsl (pitchHue dataArray) 100 50"

section \<open>The host\<close>

text \<open>
  What a script asks of the browser is recorded, in order, in a trace. The
  answer of the browser to the microphone request is an input of the model.
\<close>

datatype error = TypeError | NotAllowedError | NotFoundError

datatype media = Granted | Rejected error

datatype effect =
    GetUserMedia
  | ConsoleError
  | AppendCanvas
  | AddMouseMoveListener
  | RequestAnimationFrame
  | UpdateProjectionMatrix
  | Render
  | HideStartButton
  | ClearRect
  | DrawPetal number number real number number color
  | DrawCenter number color
  | SetTimeout number

text \<open>
  The analyser node. \<^verbatim>\<open>frequencyBinCount\<close> is half of \<^verbatim>\<open>fftSize\<close>. The audio
  it currently holds comes from the host and is an argument of each tick:
  \<^verbatim>\<open>getByteFrequencyData(array)\<close> overwrites the first
  \<^verbatim>\<open>frequencyBinCount\<close> elements of the array and leaves the others,
  \<^verbatim>\<open>getByteTimeDomainData(array)\<close> does the same with the first \<^verbatim>\<open>fftSize\<close>.
\<close>

record analyser =
  fftSize :: nat

definition frequencyBinCount :: "analyser \<Rightarrow> nat" where
  "frequencyBinCount an = fftSize an div 2"

definition getByteFrequencyData :: "analyser \<Rightarrow> (nat \<Rightarrow> byte) \<Rightarrow> byte list \<Rightarrow> byte list" where
  "getByteFrequencyData an bins array =
     map (\<lambda>i. if i < frequencyBinCount an then bins i else array ! i) [0..<length array]"

definition getByteTimeDomainData :: "analyser \<Rightarrow> (nat \<Rightarrow> byte) \<Rightarrow> byte list \<Rightarrow> byte list" where
  "getByteTimeDomainData an wave array =
     map (\<lambda>i. if i < fftSize an then wave i else array ! i) [0..<length array]"

text \<open>\<^verbatim>\<open>new Uint8Array(n)\<close>: \<open>n\<close> zero bytes.\<close>

definition new_Uint8Array :: "nat \<Rightarrow> byte list" where
  "new_Uint8Array n = replicate n 0"

definition silence :: "nat \<Rightarrow> byte" where
  "silence i = 0"

section \<open>The sphere script\<close>

record mesh =
  scale :: "number \<times> number \<times> number"
  rotation_x :: number
  rotation_y :: number
  material_color :: color

record camera =
  fov :: number
  position_z :: number

text \<open>
  The globals of the script. \<open>None\<close> is \<^verbatim>\<open>undefined\<close>: every global but the two
  pointer coordinates is declared without a value.
\<close>

record sphere_state =
  sphere :: "mesh option"
  camera :: "camera option"
  analyser :: "analyser option"
  frequencyData :: "byte list option"
  mouseX :: number
  mouseY :: number
  trace :: "effect list"

definition sphere_init :: sphere_state where
  "sphere_init =
     \<lparr>sphere = None, camera = None, analyser = None, frequencyData = None,
      mouseX = Fin 0, mouseY = Fin 0, trace = []\<rparr>"

definition emit :: "effect \<Rightarrow> sphere_state \<Rightarrow> sphere_state" where
  "emit e s = s\<lparr>trace := trace s @ [e]\<rparr>"

text \<open>
  \<^verbatim>\<open>initAudio\<close>. The analyser is created before the \<^verbatim>\<open>try\<close> (with the default
  \<^verbatim>\<open>fftSize\<close> of 2048); the assignments after the \<^verbatim>\<open>await\<close> run only when the
  request is granted; a rejection is caught and logged. The function returns
  normally in both cases.
\<close>

definition initAudio :: "media \<Rightarrow> sphere_state \<Rightarrow> sphere_state" where
  "initAudio m s =
     (let s1 = s\<lparr>analyser := Some \<lparr>fftSize = 2048\<rparr>\<rparr>;
          s2 = emit GetUserMedia s1
      in case m of
           Granted \<Rightarrow>
             (let an = \<lparr>fftSize = 256\<rparr>
              in s2\<lparr>analyser := Some an,
                    frequencyData := Some (new_Uint8Array (frequencyBinCount an))\<rparr>)
         | Rejected e \<Rightarrow> emit ConsoleError s2)"

text \<open>
  \<^verbatim>\<open>animate\<close>. The frame request is its first statement. Reading a property of
  \<^verbatim>\<open>undefined\<close> throws a \<^verbatim>\<open>TypeError\<close>, and the statements after it do not
  run. With an analyser and no \<^verbatim>\<open>frequencyData\<close> the call
  \<^verbatim>\<open>analyser.getByteFrequencyData(undefined)\<close> throws; a host that let it pass
  would reach \<^verbatim>\<open>undefined.reduce\<close> in \<^verbatim>\<open>getAverageFrequency\<close>, which throws
  as well.
\<close>

definition animate_audio :: "(nat \<Rightarrow> byte) \<Rightarrow> sphere_state \<Rightarrow> sphere_state \<times> error option" where
  "animate_audio bins s =
     (case analyser s of
        None \<Rightarrow> (s, None)
      | Some an \<Rightarrow>
          (case frequencyData s of
             None \<Rightarrow> (s, Some TypeError)
           | Some array \<Rightarrow>
               (let data = getByteFrequencyData an bins array;
                    s1 = s\<lparr>frequencyData := Some data\<rparr>;
                    averageFrequency = getAverageFrequency data
                in case sphere s1 of
                     None \<Rightarrow> (s1, Some TypeError)
                   | Some m \<Rightarrow>
                       (let k = nadd (Fin 1) (ndiv averageFrequency (Fin 128));
                            m1 = m\<lparr>scale := (k, k, k)\<rparr>;
                            m2 = m1\<lparr>material_color := Hsl (ndiv averageFrequency (Fin 256)) 1 0.5\<rparr>;
                            s2 = s1\<lparr>sphere := Some m2\<rparr>
                        in case camera s2 of
                             None \<Rightarrow> (s2, Some TypeError)
                           | Some c \<Rightarrow>
                               (let c1 = c\<lparr>fov := nadd (Fin 750) (nmul averageFrequency (Fin 0.01))\<rparr>
                                in (emit UpdateProjectionMatrix (s2\<lparr>camera := Some c1\<rparr>), None))))))"

definition animate_rotate :: "sphere_state \<Rightarrow> sphere_state \<times> error option" where
  "animate_rotate s =
     (case sphere s of
        None \<Rightarrow> (s, Some TypeError)
      | Some m \<Rightarrow>
          (let m1 = m\<lparr>rotation_x :=
                        nadd (rotation_x m) (nmul (nsub (mouseY s) (rotation_x m)) (Fin 0.05))\<rparr>;
               m2 = m1\<lparr>rotation_y :=
                         nadd (rotation_y m1) (nmul (nsub (mouseX s) (rotation_y m1)) (Fin 0.05))\<rparr>
           in (emit Render (s\<lparr>sphere := Some m2\<rparr>), None)))"

definition animate :: "(nat \<Rightarrow> byte) \<Rightarrow> sphere_state \<Rightarrow> sphere_state \<times> error option" where
  "animate bins s =
     (case animate_audio bins (emit RequestAnimationFrame s) of
        (s1, Some e) \<Rightarrow> (s1, Some e)
      | (s1, None) \<Rightarrow> animate_rotate s1)"

text \<open>
  \<^verbatim>\<open>initThreeJS\<close>: a mesh of scale 1 and rotation 0 with a white material, a
  camera of 75 degrees moved to \<open>z = 10\<close>, the canvas of the renderer appended
  to the page, the pointer listener, and the first call of \<^verbatim>\<open>animate\<close>.
\<close>

definition initThreeJS :: "(nat \<Rightarrow> byte) \<Rightarrow> sphere_state \<Rightarrow> sphere_state \<times> error option" where
  "initThreeJS bins s =
     (let s1 = s\<lparr>camera := Some \<lparr>fov = Fin 75, position_z = Fin 0\<rparr>\<rparr>;
          s2 = emit AppendCanvas s1;
          s3 = s2\<lparr>sphere := Some \<lparr>scale = (Fin 1, Fin 1, Fin 1), rotation_x = Fin 0,
                                   rotation_y = Fin 0, material_color = Hex 0xffffff\<rparr>\<rparr>;
          s4 = s3\<lparr>camera := map_option (\<lambda>c. c\<lparr>position_z := Fin 10\<rparr>) (camera s3)\<rparr>;
          s5 = emit AddMouseMoveListener s4
      in animate bins s5)"

text \<open>
  The click handler of the start button: the button is hidden by its last
  statement, which an exception thrown before it skips. The exception then
  rejects the promise of the handler, which nothing awaits.
\<close>

definition sphere_click :: "media \<Rightarrow> (nat \<Rightarrow> byte) \<Rightarrow> sphere_state \<Rightarrow> sphere_state \<times> error option" where
  "sphere_click m bins s =
     (case initThreeJS bins (initAudio m s) of
        (s1, Some e) \<Rightarrow> (s1, Some e)
      | (s1, None) \<Rightarrow> (emit HideStartButton s1, None))"

text \<open>\<^verbatim>\<open>onMouseMove\<close>, from the client coordinates and the size of the window.\<close>

definition onMouseMove :: "real \<Rightarrow> real \<Rightarrow> real \<Rightarrow> real \<Rightarrow> sphere_state \<Rightarrow> sphere_state" where
  "onMouseMove clientX clientY innerWidth innerHeight s =
     s\<lparr>mouseX := nsub (nmul (ndiv (Fin clientX) (Fin innerWidth)) (Fin 2)) (Fin 1),
       mouseY := nadd (nmul (nneg (ndiv (Fin clientY) (Fin innerHeight))) (Fin 2)) (Fin 1)\<rparr>"


section \<open>The rose script\<close>

text \<open>
  The state of the script: the constants read from the canvas when the script
  loads, the analyser, the volume and the time of the last update. What one
  call of \<^verbatim>\<open>drawAnimation\<close> reads from the host is a \<open>tick\<close>: the clock, the
  frequency and time-domain data of the analyser, and the successive results
  of \<^verbatim>\<open>Math.random()\<close>.
\<close>

record rose_state =
  centerX :: real
  centerY :: real
  rose_analyser :: "analyser option"
  volume :: number
  lastUpdateTime :: real
  rose_trace :: "effect list"

record tick =
  now :: real
  freq :: "nat \<Rightarrow> byte"
  wave :: "nat \<Rightarrow> byte"
  random :: "nat \<Rightarrow> real"

definition numPetals :: nat where
  "numPetals = 10"

definition rose_init :: "real \<Rightarrow> real \<Rightarrow> rose_state" where
  "rose_init width height =
     \<lparr>centerX = width / 2, centerY = height / 2, rose_analyser = None,
      volume = Fin 0, lastUpdateTime = 0, rose_trace = []\<rparr>"

definition rose_emit :: "effect \<Rightarrow> rose_state \<Rightarrow> rose_state" where
  "rose_emit e s = s\<lparr>rose_trace := rose_trace s @ [e]\<rparr>"

text \<open>
  \<^verbatim>\<open>updateAudioData\<close>: a fresh array of \<^verbatim>\<open>frequencyBinCount\<close> bytes, filled by
  the analyser; \<^verbatim>\<open>volume = sum / dataArray.length / 128.0\<close>.
\<close>

definition rose_snapshot :: "analyser \<Rightarrow> (nat \<Rightarrow> byte) \<Rightarrow> byte list" where
  "rose_snapshot an bins =
     (let bufferLength = frequencyBinCount an;
          dataArray = new_Uint8Array bufferLength
      in getByteFrequencyData an bins dataArray)"

definition updateAudioData :: "(nat \<Rightarrow> byte) \<Rightarrow> rose_state \<Rightarrow> rose_state \<times> error option" where
  "updateAudioData bins s =
     (case rose_analyser s of
        None \<Rightarrow> (s, Some TypeError)
      | Some an \<Rightarrow>
          (let dataArray = rose_snapshot an bins;
               sum = reduce_sum dataArray
           in (s\<lparr>volume := ndiv (ndiv (Fin (real sum)) (Fin (real (length dataArray)))) (Fin 128)\<rparr>,
               None)))"

text \<open>
  \<^verbatim>\<open>drawRose\<close> and \<^verbatim>\<open>drawPetal\<close>: petal \<open>i\<close> consumes four random numbers. The
  canvas calls of one petal are one effect, with the centre, the rotation and
  the two radii of the ellipse.
\<close>

definition petal :: "rose_state \<Rightarrow> (nat \<Rightarrow> real) \<Rightarrow> color \<Rightarrow> nat \<Rightarrow> effect" where
  "petal s rnd col i =
     (let angle = (real i / real numPetals) * 20 * pi * rnd (4 * i);
          radius = nadd (Fin 5) (nmul (Fin (rnd (4 * i + 1) * 300)) (volume s));
          petalLength = nadd (Fin 30) (nmul (Fin (rnd (4 * i + 2) * 300)) (volume s));
          petalWidth = nadd (Fin 15) (nmul (Fin (rnd (4 * i + 3) * 300)) (volume s));
          x = nadd (Fin (centerX s)) (nmul (Fin (cos angle)) radius);
          y = nadd (Fin (centerY s)) (nmul (Fin (sin angle)) radius)
      in DrawPetal x y angle petalLength petalWidth col)"

definition drawRose :: "(nat \<Rightarrow> real) \<Rightarrow> color \<Rightarrow> rose_state \<Rightarrow> rose_state" where
  "drawRose rnd col s = foldl (\<lambda>s' i. rose_emit (petal s' rnd col i) s') s [0..<numPetals]"

definition drawCenterObject :: "color \<Rightarrow> rose_state \<Rightarrow> rose_state" where
  "drawCenterObject col s =
     rose_emit (DrawCenter (nmul (Fin 5) (nadd (Fin 1) (nmul (volume s) (Fin 3)))) col) s"

text \<open>
  \<^verbatim>\<open>drawAnimation\<close>. Its last statement hands the timer the delay
  \<^verbatim>\<open>10 - (volume * 900)\<close>, computed from the volume this call has just stored.
\<close>

definition drawAnimation :: "tick \<Rightarrow> rose_state \<Rightarrow> rose_state \<times> error option" where
  "drawAnimation t s =
     (let s1 = s\<lparr>lastUpdateTime := now t\<rparr>;
          s2 = rose_emit ClearRect s1
      in case updateAudioData (freq t) s2 of
           (s3, Some e) \<Rightarrow> (s3, Some e)
         | (s3, None) \<Rightarrow>
             (case rose_analyser s3 of
                None \<Rightarrow> (s3, Some TypeError)
              | Some an \<Rightarrow>
                  (let bufferLength = frequencyBinCount an;
                       dataArray = getByteTimeDomainData an (wave t) (new_Uint8Array bufferLength);
                       col = getPitchColor dataArray;
                       s4 = drawRose (random t) col s3;
                       s5 = drawCenterObject col s4;
                       delay = nsub (Fin 10) (nmul (volume s5) (Fin 900))
                   in (rose_emit (SetTimeout delay) s5, None))))"

text \<open>The function given to the timer: \<^verbatim>\<open>() => requestAnimationFrame(drawAnimation)\<close>.\<close>

definition timeoutCallback :: "rose_state \<Rightarrow> rose_state" where
  "timeoutCallback s = rose_emit RequestAnimationFrame s"

text \<open>
  The click handler: the analyser is created with \<^verbatim>\<open>fftSize = 2048\<close>, the
  microphone is requested and the button is hidden. The function given to
  \<^verbatim>\<open>then\<close> runs later, and only when the request is granted; \<open>t0\<close> is the
  clock it reads. A rejection has no handler: the promise stays rejected.
\<close>

definition rose_click :: "media \<Rightarrow> real \<Rightarrow> tick \<Rightarrow> rose_state \<Rightarrow> rose_state \<times> error option" where
  "rose_click m t0 t s =
     (let s1 = s\<lparr>rose_analyser := Some \<lparr>fftSize = 2048\<rparr>\<rparr>;
          s2 = rose_emit GetUserMedia s1;
          s3 = rose_emit HideStartButton s2
      in case m of
           Rejected e \<Rightarrow> (s3, Some e)
         | Granted \<Rightarrow> drawAnimation t (s3\<lparr>lastUpdateTime := t0\<rparr>))"

text \<open>
  The frames after the first. The host runs the timer callback whatever the
  sign of the delay (a delay below zero is taken as zero), the callback asks
  for a frame, and the frame calls \<^verbatim>\<open>drawAnimation\<close>. A call that throws has
  set no timer, and nothing runs after it.
\<close>

fun rose_frames :: "tick list \<Rightarrow> rose_state \<times> error option \<Rightarrow> rose_state \<times> error option" where
  "rose_frames [] r = r"
| "rose_frames (t # ts) (s, Some e) = (s, Some e)"
| "rose_frames (t # ts) (s, None) = rose_frames ts (drawAnimation t (timeoutCallback s))"

section \<open>Notions used in the statements\<close>

text \<open>The comparison \<^verbatim>\<open><=\<close> of two numbers; it is false when either is \<open>NaN\<close>.\<close>

fun nle :: "number \<Rightarrow> number \<Rightarrow> bool" where
  "nle (Fin a) (Fin b) = (a \<le> b)"
| "nle NaN y = False"
| "nle x NaN = False"
| "nle NInf y = True"
| "nle x PInf = True"
| "nle PInf y = False"
| "nle x NInf = False"

text \<open>
  Index \<open>k\<close> holds a largest sample; it is the only index that does; it is
  the lowest index that does.
\<close>

definition is_maximum_at :: "byte list \<Rightarrow> nat \<Rightarrow> bool" where
  "is_maximum_at dataArray k =
     (k < length dataArray \<and> (\<forall>b \<in> set dataArray. unat b \<le> unat (dataArray ! k)))"

definition unique_maximum_at :: "byte list \<Rightarrow> nat \<Rightarrow> bool" where
  "unique_maximum_at dataArray k =
     (k < length dataArray
      \<and> (\<forall>j \<in> set [0..<length dataArray].
            j \<noteq> k \<longrightarrow> unat (dataArray ! j) < unat (dataArray ! k)))"

definition first_maximum_at :: "byte list \<Rightarrow> nat \<Rightarrow> bool" where
  "first_maximum_at dataArray k =
     (is_maximum_at dataArray k
      \<and> (\<forall>b \<in> set (take k dataArray). unat b < unat (dataArray ! k)))"

text \<open>
  The scale of the sphere after one call of \<^verbatim>\<open>animate\<close>, and its two rotation
  angles after a run of frames.
\<close>

definition scale_after :: "(nat \<Rightarrow> byte) \<Rightarrow> sphere_state \<Rightarrow> (number \<times> number \<times> number) option" where
  "scale_after bins s = map_option scale (sphere (fst (animate bins s)))"


text \<open>
  What one call of \<^verbatim>\<open>drawAnimation\<close> computes from its tick: the volume, the
  colour and the delay. The delays that a trace hands to the timer, in order.
\<close>

definition tick_volume :: "analyser \<Rightarrow> tick \<Rightarrow> number" where
  "tick_volume an t = ndiv (getAverageFrequency (rose_snapshot an (freq t))) (Fin 128)"

definition tick_color :: "analyser \<Rightarrow> tick \<Rightarrow> color" where
  "tick_color an t =
     getPitchColor (getByteTimeDomainData an (wave t) (new_Uint8Array (frequencyBinCount an)))"

definition tick_delay :: "analyser \<Rightarrow> tick \<Rightarrow> number" where
  "tick_delay an t = nsub (Fin 10) (nmul (tick_volume an t) (Fin 900))"

fun delays :: "effect list \<Rightarrow> number list" where
  "delays [] = []"
| "delays (SetTimeout d # es) = d # delays es"
| "delays (e # es) = delays es"

text \<open>Concrete inputs on which the model is run.\<close>

definition two_bins :: "nat \<Rightarrow> byte" where
  "two_bins i = (if i = 0 then 10 else 20)"

definition demo_rose :: rose_state where
  "demo_rose = (rose_init 300 150)\<lparr>rose_analyser := Some \<lparr>fftSize = 4\<rparr>\<rparr>"

definition loud :: "nat \<Rightarrow> byte" where
  "loud i = 255"

definition after_click :: sphere_state where
  "after_click = onMouseMove 150 50 200 200 (fst (sphere_click Granted silence sphere_init))"

definition coin :: "nat \<Rightarrow> real" where
  "coin i = 1 / 2"

definition loud_tick :: tick where
  "loud_tick = \<lparr>now = 16, freq = loud, wave = silence, random = coin\<rparr>"

definition still_tick :: tick where
  "still_tick = \<lparr>now = 16, freq = silence, wave = silence, random = coin\<rparr>"

text \<open>
  The snapshot of 2048 bytes that is 0 everywhere but 255 at index 1024, and a
  sphere and a rose whose analyser has 2048 bins, so that they read it.
\<close>

definition spike :: "nat \<Rightarrow> byte" where
  "spike i = (if i = 1024 then 255 else 0)"

definition spike_snapshot :: "byte list" where
  "spike_snapshot = map spike [0..<2048]"

definition wide_sphere :: sphere_state where
  "wide_sphere =
     after_click\<lparr>analyser := Some \<lparr>fftSize = 4096\<rparr>, frequencyData := Some (new_Uint8Array 2048)\<rparr>"

definition wide_rose :: rose_state where
  "wide_rose = (rose_init 300 150)\<lparr>rose_analyser := Some \<lparr>fftSize = 4096\<rparr>\<rparr>"

section \<open>The mean of a snapshot\<close>

lemma foldl_add_unat:
  "foldl (\<lambda>a b. a + unat b) k xs = k + sum_list (map unat xs)"
  by (induction xs arbitrary: k) simp_all

lemma reduce_sum_sum_list: "reduce_sum xs = sum_list (map unat xs)"
  by (simp add: reduce_sum_def foldl_add_unat)

lemma unat_byte_le: "unat (b :: byte) \<le> 255"
  using unsigned_less [of b, where ?'a = nat] by simp

lemma reduce_sum_le: "reduce_sum xs \<le> 255 * length xs"
  unfolding reduce_sum_sum_list
proof (induction xs)
  case Nil
  show ?case by simp
next
  case (Cons b xs)
  have "unat b \<le> 255" by (rule unat_byte_le)
  with Cons show ?case by simp
qed

lemma real_reduce_sum: "real (reduce_sum xs) = (\<Sum>b\<leftarrow>xs. byte_value b)"
  unfolding reduce_sum_sum_list byte_value_def
  by (induction xs) simp_all

lemma getAverageFrequency_mean:
  "xs \<noteq> [] \<Longrightarrow>
   getAverageFrequency xs = Fin ((\<Sum>b\<leftarrow>xs. byte_value b) / real (length xs))"
  by (simp add: getAverageFrequency_def real_reduce_sum)

lemma reduce_sum_replicate: "reduce_sum (replicate n b) = n * unat b"
  by (simp add: reduce_sum_sum_list sum_list_replicate)

lemma getAverageFrequency_replicate:
  "0 < n \<Longrightarrow> getAverageFrequency (replicate n b) = Fin (byte_value b)"
  by (simp add: getAverageFrequency_def reduce_sum_replicate byte_value_def)

lemma updateAudioData_volume:
  "rose_analyser s = Some an \<Longrightarrow>
   volume (fst (updateAudioData bins s)) =
     ndiv (getAverageFrequency (rose_snapshot an bins)) (Fin 128)"
  by (simp add: updateAudioData_def getAverageFrequency_def Let_def)

lemma average_nonneg:
  "xs \<noteq> [] \<Longrightarrow> \<exists>a. getAverageFrequency xs = Fin a \<and> 0 \<le> a \<and> a \<le> 255"
proof -
  assume ne: "xs \<noteq> []"
  have "real (reduce_sum xs) \<le> real (255 * length xs)"
    using reduce_sum_le [of xs] by (simp only: of_nat_le_iff)
  then have "real (reduce_sum xs) / real (length xs) \<le> 255"
    using ne by (simp add: divide_simps)
  with ne show ?thesis by (simp add: getAverageFrequency_def)
qed

text \<open>
  C2. The average magnitude is the arithmetic mean of the samples: for a
  snapshot that is not empty \<^verbatim>\<open>getAverageFrequency\<close> returns the sum of the
  byte values divided by their number; for every length above zero it returns
  0 on the all-zero snapshot and 255 on the all-255 snapshot; and the volume
  that \<^verbatim>\<open>updateAudioData\<close> stores is that same mean, of the snapshot it has
  just read, divided by 128.
\<close>

theorem averageMagnitude_is_mean:
  "(dataArray \<noteq> [] \<longrightarrow>
      getAverageFrequency dataArray =
        Fin ((\<Sum>b\<leftarrow>dataArray. byte_value b) / real (length dataArray)))
   \<and> (0 < n \<longrightarrow>
        getAverageFrequency (replicate n 0) = Fin 0
        \<and> getAverageFrequency (replicate n 255) = Fin 255)
   \<and> (rose_analyser s = Some an \<longrightarrow>
        volume (fst (updateAudioData bins s)) =
          ndiv (getAverageFrequency (rose_snapshot an bins)) (Fin 128))"
proof (intro conjI impI)
  assume "dataArray \<noteq> []"
  then show "getAverageFrequency dataArray =
      Fin ((\<Sum>b\<leftarrow>dataArray. byte_value b) / real (length dataArray))"
    by (rule getAverageFrequency_mean)
next
  assume "0 < n"
  then show "getAverageFrequency (replicate n 0) = Fin 0"
    using getAverageFrequency_replicate [of n 0] by (simp add: byte_value_def)
next
  assume "0 < n"
  then show "getAverageFrequency (replicate n 255) = Fin 255"
    using getAverageFrequency_replicate [of n 255] by (simp add: byte_value_def)
next
  assume "rose_analyser s = Some an"
  then show "volume (fst (updateAudioData bins s)) =
      ndiv (getAverageFrequency (rose_snapshot an bins)) (Fin 128)"
    by (rule updateAudioData_volume)
qed

theorem averageMagnitude_is_mean_witness:
  "[1, 2, 3 :: byte] \<noteq> []
   \<and> getAverageFrequency [1, 2, 3] =
       Fin ((\<Sum>b\<leftarrow>[1, 2, 3]. byte_value b) / real (length [1, 2, 3 :: byte]))
   \<and> (0::nat) < 4
   \<and> getAverageFrequency (replicate 4 0) = Fin 0
   \<and> getAverageFrequency (replicate 4 255) = Fin 255
   \<and> rose_analyser demo_rose = Some \<lparr>fftSize = 4\<rparr>
   \<and> volume (fst (updateAudioData two_bins demo_rose)) =
       ndiv (getAverageFrequency (rose_snapshot \<lparr>fftSize = 4\<rparr> two_bins)) (Fin 128)"
  using averageMagnitude_is_mean [of "[1, 2, 3]" 4 demo_rose "\<lparr>fftSize = 4\<rparr>" two_bins]
  by (simp add: demo_rose_def rose_init_def)

section \<open>The hue of the dominant bucket\<close>

lemma foldl_max_Max: "foldl max (a::nat) l = Max (set (a # l))"
proof -
  have "(\<lambda>x s. max s x) = (max :: nat \<Rightarrow> nat \<Rightarrow> nat)"
    by (intro ext) (rule max.commute)
  then show ?thesis
    unfolding Max.set_eq_fold foldl_conv_fold by simp
qed

lemma Math_max_at:
  assumes "is_maximum_at xs k"
  shows "Math_max xs = Fin (byte_value (xs ! k))"
proof -
  from assms have k: "k < length xs" and le: "\<forall>b \<in> set xs. unat b \<le> unat (xs ! k)"
    by (simp_all add: is_maximum_at_def)
  from k obtain b rest where xs: "xs = b # rest" by (cases xs) auto
  have "Max (set (map unat xs)) = unat (xs ! k)"
  proof (rule Max_eqI)
    show "finite (set (map unat xs))" by simp
    show "\<And>y. y \<in> set (map unat xs) \<Longrightarrow> y \<le> unat (xs ! k)" using le by auto
    show "unat (xs ! k) \<in> set (map unat xs)" using k by simp
  qed
  then have "foldl max (unat b) (map unat rest) = unat (xs ! k)"
    by (simp add: foldl_max_Max xs)
  then show ?thesis by (simp add: Math_max_def xs byte_value_def)
qed

lemma indexOf_from_first:
  "k < length xs \<Longrightarrow> Fin (byte_value (xs ! k)) = v \<Longrightarrow>
   \<forall>b \<in> set (take k xs). Fin (byte_value b) \<noteq> v \<Longrightarrow>
   indexOf_from i xs v = int (i + k)"
proof (induction xs arbitrary: i k)
  case Nil
  then show ?case by simp
next
  case (Cons b rest)
  show ?case
  proof (cases k)
    case 0
    with Cons.prems show ?thesis by simp
  next
    case (Suc j)
    with Cons.prems have "j < length rest" "Fin (byte_value (rest ! j)) = v"
      "\<forall>b \<in> set (take j rest). Fin (byte_value b) \<noteq> v" "Fin (byte_value b) \<noteq> v"
      by simp_all
    with Cons.IH [of j "Suc i"] Suc show ?thesis by simp
  qed
qed

lemma unique_is_first: "unique_maximum_at xs k \<Longrightarrow> first_maximum_at xs k"
  unfolding unique_maximum_at_def first_maximum_at_def is_maximum_at_def
proof (intro conjI ballI)
  assume a: "k < length xs \<and> (\<forall>j\<in>set [0..<length xs]. j \<noteq> k \<longrightarrow> unat (xs ! j) < unat (xs ! k))"
  then show "k < length xs" by simp
  { fix b assume "b \<in> set xs"
    then obtain j where j: "j < length xs" "xs ! j = b" by (auto simp: in_set_conv_nth)
    with a show "unat b \<le> unat (xs ! k)" by (cases "j = k") (auto simp: less_imp_le) }
  { fix b assume "b \<in> set (take k xs)"
    then obtain j where j: "j < length (take k xs)" "take k xs ! j = b"
      by (auto simp: in_set_conv_nth)
    then have "j < k" "j < length xs" "xs ! j = b" by simp_all
    with a show "unat b < unat (xs ! k)" by auto }
qed

lemma pitchHue_first:
  assumes "first_maximum_at xs k"
  shows "pitchHue xs = Fin (real k / real (length xs) * 360)"
proof -
  from assms have m: "is_maximum_at xs k"
    and f: "\<forall>b \<in> set (take k xs). unat b < unat (xs ! k)"
    by (simp_all add: first_maximum_at_def)
  from m have k: "k < length xs" by (simp add: is_maximum_at_def)
  have "indexOf_from 0 xs (Math_max xs) = int (0 + k)"
  proof (rule indexOf_from_first [OF k])
    show "Fin (byte_value (xs ! k)) = Math_max xs" by (simp add: Math_max_at [OF m])
    show "\<forall>b \<in> set (take k xs). Fin (byte_value b) \<noteq> Math_max xs"
    proof
      fix b assume "b \<in> set (take k xs)"
      with f have "unat b \<noteq> unat (xs ! k)" by auto
      then show "Fin (byte_value b) \<noteq> Math_max xs"
        by (simp only: Math_max_at [OF m] byte_value_def number.inject of_nat_eq_iff
              not_False_eq_True)
    qed
  qed
  moreover from k have "xs \<noteq> []" by auto
  ultimately show ?thesis by (simp add: pitchHue_def indexOf_def Let_def)
qed

lemma hue_range: "k < n \<Longrightarrow> 0 \<le> real k / real n * 360 \<and> real k / real n * 360 < 360"
  by (simp add: divide_simps)

text \<open>
  C3. When the snapshot has its only maximum at index \<open>k\<close>, the colour that
  \<^verbatim>\<open>getPitchColor\<close> returns has the hue \<open>(k / n) * 360\<close>, where \<open>n\<close> is the
  length, and this hue is at least 0 and below 360. When several samples share
  the maximum and \<open>k\<close> is the lowest index that holds it, the hue is computed
  from that \<open>k\<close> in the same way.
\<close>

theorem dominantBucketHue_first_maximum:
  "(unique_maximum_at dataArray k \<longrightarrow>
      getPitchColor dataArray = Hsl (Fin (real k / real (length dataArray) * 360)) 100 50
      \<and> 0 \<le> real k / real (length dataArray) * 360
      \<and> real k / real (length dataArray) * 360 < 360)
   \<and> (first_maximum_at dataArray k \<longrightarrow>
      getPitchColor dataArray = Hsl (Fin (real k / real (length dataArray) * 360)) 100 50
      \<and> 0 \<le> real k / real (length dataArray) * 360
      \<and> real k / real (length dataArray) * 360 < 360)"
proof -
  have first: "getPitchColor dataArray = Hsl (Fin (real k / real (length dataArray) * 360)) 100 50
      \<and> 0 \<le> real k / real (length dataArray) * 360
      \<and> real k / real (length dataArray) * 360 < 360" if h: "first_maximum_at dataArray k"
  proof -
    from h have "k < length dataArray" by (simp add: first_maximum_at_def is_maximum_at_def)
    then show ?thesis using hue_range [of k "length dataArray"] pitchHue_first [OF h]
      by (simp add: getPitchColor_def)
  qed
  show ?thesis using first unique_is_first by blast
qed

theorem dominantBucketHue_first_maximum_witness:
  "unique_maximum_at [1, 7, 3] 1
   \<and> getPitchColor [1, 7, 3] = Hsl (Fin 120) 100 50
   \<and> first_maximum_at [1, 7, 3, 7] 1
   \<and> \<not> unique_maximum_at [1, 7, 3, 7] 1
   \<and> getPitchColor [1, 7, 3, 7] = Hsl (Fin 90) 100 50"
  using dominantBucketHue_first_maximum [of "[1, 7, 3]" 1]
    dominantBucketHue_first_maximum [of "[1, 7, 3, 7]" 1]
  by (simp add: unique_maximum_at_def first_maximum_at_def is_maximum_at_def upt_rec)

section \<open>One frame of the sphere\<close>

lemma animate_step:
  assumes "sphere s = Some m" "camera s = Some c" "analyser s = Some an"
    "frequencyData s = Some arr"
  shows "animate bins s =
    (let data = getByteFrequencyData an bins arr;
         avg = getAverageFrequency data;
         k = nadd (Fin 1) (ndiv avg (Fin 128))
     in (s\<lparr>sphere := Some (m\<lparr>scale := (k, k, k),
                   rotation_x := nadd (rotation_x m) (nmul (nsub (mouseY s) (rotation_x m)) (Fin 0.05)),
                   rotation_y := nadd (rotation_y m) (nmul (nsub (mouseX s) (rotation_y m)) (Fin 0.05)),
                   material_color := Hsl (ndiv avg (Fin 256)) 1 0.5\<rparr>),
           camera := Some (c\<lparr>fov := nadd (Fin 750) (nmul avg (Fin 0.01))\<rparr>),
           frequencyData := Some data,
           trace := trace s @ [RequestAnimationFrame, UpdateProjectionMatrix, Render]\<rparr>, None))"
  using assms
  by (simp add: animate_def animate_audio_def animate_rotate_def emit_def Let_def)







lemma initAudio_granted:
  "initAudio Granted sphere_init =
     sphere_init\<lparr>analyser := Some \<lparr>fftSize = 256\<rparr>,
                 frequencyData := Some (new_Uint8Array 128),
                 trace := [GetUserMedia]\<rparr>"
  by (simp add: initAudio_def sphere_init_def emit_def frequencyBinCount_def Let_def)

lemma sphere_click_granted:
  "\<exists>s m c arr. sphere_click Granted bins sphere_init = (s, None)
     \<and> sphere s = Some m \<and> camera s = Some c \<and> analyser s = Some \<lparr>fftSize = 256\<rparr>
     \<and> frequencyData s = Some arr \<and> length arr = 128
     \<and> rotation_x m = Fin 0 \<and> rotation_y m = Fin 0
     \<and> mouseX s = Fin 0 \<and> mouseY s = Fin 0
     \<and> trace s = [GetUserMedia, AppendCanvas, AddMouseMoveListener, RequestAnimationFrame,
                   UpdateProjectionMatrix, Render, HideStartButton]"
proof -
  let ?s5 = "sphere_init\<lparr>analyser := Some \<lparr>fftSize = 256\<rparr>,
                 frequencyData := Some (new_Uint8Array 128),
                 camera := Some \<lparr>fov = Fin 75, position_z = Fin 10\<rparr>,
                 sphere := Some \<lparr>scale = (Fin 1, Fin 1, Fin 1), rotation_x = Fin 0,
                                   rotation_y = Fin 0, material_color = Hex 0xffffff\<rparr>,
                 trace := [GetUserMedia, AppendCanvas, AddMouseMoveListener]\<rparr>"
  have i: "initThreeJS bins (initAudio Granted sphere_init) = animate bins ?s5"
    unfolding initAudio_granted
    by (simp add: initThreeJS_def emit_def Let_def sphere_init_def)
  have a: "sphere ?s5 = Some \<lparr>scale = (Fin 1, Fin 1, Fin 1), rotation_x = Fin 0,
                                   rotation_y = Fin 0, material_color = Hex 0xffffff\<rparr>"
      "camera ?s5 = Some \<lparr>fov = Fin 75, position_z = Fin 10\<rparr>"
      "analyser ?s5 = Some \<lparr>fftSize = 256\<rparr>"
      "frequencyData ?s5 = Some (new_Uint8Array 128)"
    by simp_all
  show ?thesis
    unfolding sphere_click_def i animate_step [OF a]
    by (simp add: Let_def emit_def sphere_init_def nsub_def getByteFrequencyData_def
          new_Uint8Array_def)
qed




lemma scale_after_step:
  assumes "sphere s = Some m" "camera s = Some c" "analyser s = Some an"
    "frequencyData s = Some arr"
  shows "scale_after bins s =
    Some (nadd (Fin 1) (ndiv (getAverageFrequency (getByteFrequencyData an bins arr)) (Fin 128)),
          nadd (Fin 1) (ndiv (getAverageFrequency (getByteFrequencyData an bins arr)) (Fin 128)),
          nadd (Fin 1) (ndiv (getAverageFrequency (getByteFrequencyData an bins arr)) (Fin 128)))"
  by (simp add: scale_after_def animate_step [OF assms] Let_def)

lemma after_click_running:
  "\<exists>m c arr. sphere after_click = Some m \<and> camera after_click = Some c
     \<and> analyser after_click = Some \<lparr>fftSize = 256\<rparr>
     \<and> frequencyData after_click = Some arr \<and> length arr = 128
     \<and> rotation_x m = Fin 0 \<and> rotation_y m = Fin 0
     \<and> mouseX after_click = Fin (1 / 2) \<and> mouseY after_click = Fin (1 / 2)"
proof -
  obtain s m c arr where
    h: "sphere_click Granted silence sphere_init = (s, None)"
       "sphere s = Some m" "camera s = Some c" "analyser s = Some \<lparr>fftSize = 256\<rparr>"
       "frequencyData s = Some arr" "length arr = 128"
       "rotation_x m = Fin 0" "rotation_y m = Fin 0"
    using sphere_click_granted [of silence] by blast
  have a: "after_click = onMouseMove 150 50 200 200 s"
    by (simp add: after_click_def h(1))
  show ?thesis unfolding a using h(2-8) by (simp add: onMouseMove_def nsub_def)
qed

lemma snapshot_within_bins:
  "length arr \<le> frequencyBinCount an \<Longrightarrow>
   getByteFrequencyData an bins arr = map bins [0..<length arr]"
  by (simp add: getByteFrequencyData_def)

lemma rose_snapshot_eq: "rose_snapshot an bins = map bins [0..<frequencyBinCount an]"
  by (simp add: rose_snapshot_def new_Uint8Array_def snapshot_within_bins Let_def)

lemma map_const_upt: "(\<And>i. f i = c) \<Longrightarrow> map f [0..<n] = replicate n c"
  by (induction n) (simp_all add: replicate_append_same)

text \<open>
  C5. In a running sphere pipeline, the three components of the scale after a
  frame are \<open>1 + avg / 128\<close>, where \<open>avg\<close> is the average magnitude of the
  snapshot read in that frame, with no clamp. The average of a snapshot that is
  not empty is a number that is at least 0. A snapshot with a larger or equal
  average gives a larger or equal scale, and the average 0 gives the scale 1.
\<close>

theorem sphere_scale:
  assumes "sphere s = Some m" and "camera s = Some c" and "analyser s = Some an"
    and "frequencyData s = Some arr"
  shows "scale_after bins s =
           Some (nadd (Fin 1) (ndiv (getAverageFrequency (getByteFrequencyData an bins arr)) (Fin 128)),
                 nadd (Fin 1) (ndiv (getAverageFrequency (getByteFrequencyData an bins arr)) (Fin 128)),
                 nadd (Fin 1) (ndiv (getAverageFrequency (getByteFrequencyData an bins arr)) (Fin 128)))
    \<and> (getAverageFrequency (getByteFrequencyData an bins arr) = Fin a \<longrightarrow>
          scale_after bins s = Some (Fin (1 + a / 128), Fin (1 + a / 128), Fin (1 + a / 128)))
    \<and> (arr \<noteq> [] \<longrightarrow>
          (\<exists>a. 0 \<le> a \<and> getAverageFrequency (getByteFrequencyData an bins arr) = Fin a))
    \<and> (nle (getAverageFrequency (getByteFrequencyData an bins arr))
            (getAverageFrequency (getByteFrequencyData an bins' arr)) \<longrightarrow>
          (\<exists>k k'. scale_after bins s = Some (k, k, k) \<and> scale_after bins' s = Some (k', k', k')
                   \<and> nle k k'))
    \<and> (getAverageFrequency (getByteFrequencyData an bins arr) = Fin 0 \<longrightarrow>
          scale_after bins s = Some (Fin 1, Fin 1, Fin 1))"
proof -
  let ?avg = "\<lambda>b. getAverageFrequency (getByteFrequencyData an b arr)"
  let ?k = "\<lambda>b. nadd (Fin 1) (ndiv (?avg b) (Fin 128))"
  have sc: "scale_after b s = Some (?k b, ?k b, ?k b)" for b
    by (simp add: scale_after_def animate_step [OF assms] Let_def)
  have fin: "?avg b = Fin x \<Longrightarrow> ?k b = Fin (1 + x / 128)" for b x
    by simp
  have mono: "nle (?avg bins) (?avg bins') \<Longrightarrow> nle (?k bins) (?k bins')"
    by (cases "?avg bins"; cases "?avg bins'") (simp_all add: divide_right_mono)
  have nonneg: "arr \<noteq> [] \<Longrightarrow> \<exists>a. 0 \<le> a \<and> ?avg bins = Fin a"
  proof -
    assume "arr \<noteq> []"
    then have "getByteFrequencyData an bins arr \<noteq> []"
      by (simp add: getByteFrequencyData_def)
    from average_nonneg [OF this] show ?thesis by blast
  qed
  show ?thesis
  proof (intro conjI impI)
    show "scale_after bins s = Some (?k bins, ?k bins, ?k bins)" by (rule sc)
    show "scale_after bins s = Some (Fin (1 + a / 128), Fin (1 + a / 128), Fin (1 + a / 128))"
      if "?avg bins = Fin a" using sc [of bins] fin [OF that] by simp
    show "\<exists>a. 0 \<le> a \<and> ?avg bins = Fin a" if "arr \<noteq> []" using nonneg [OF that] .
    show "\<exists>k k'. scale_after bins s = Some (k, k, k) \<and> scale_after bins' s = Some (k', k', k')
                   \<and> nle k k'"
      if "nle (?avg bins) (?avg bins')" using sc [of bins] sc [of bins'] mono [OF that] by blast
    show "scale_after bins s = Some (Fin 1, Fin 1, Fin 1)" if "?avg bins = Fin 0"
      using sc [of bins] fin [OF that] by simp
  qed
qed

theorem sphere_scale_witness:
  "scale_after silence after_click = Some (Fin 1, Fin 1, Fin 1)
   \<and> scale_after loud after_click =
       Some (Fin (1 + 255 / 128), Fin (1 + 255 / 128), Fin (1 + 255 / 128))
   \<and> (\<exists>k k'. scale_after silence after_click = Some (k, k, k)
          \<and> scale_after loud after_click = Some (k', k', k') \<and> nle k k')"
proof -
  let ?an = "\<lparr>fftSize = 256\<rparr>"
  from after_click_running obtain m c arr where
    g: "sphere after_click = Some m" "camera after_click = Some c"
       "analyser after_click = Some ?an" "frequencyData after_click = Some arr"
    and n: "length arr = 128"
    by blast
  have avg: "getAverageFrequency (getByteFrequencyData ?an bins arr) = Fin (byte_value b)"
    if "\<And>i. bins i = b" for bins b
  proof -
    have "getByteFrequencyData ?an bins arr = map bins [0..<128]"
      using snapshot_within_bins [of arr ?an bins] n by (simp add: frequencyBinCount_def)
    also have "\<dots> = replicate 128 b" using that by (rule map_const_upt)
    finally show ?thesis by (simp add: getAverageFrequency_replicate)
  qed
  have quiet: "getAverageFrequency (getByteFrequencyData ?an silence arr) = Fin 0"
    using avg [of silence 0] by (simp add: silence_def byte_value_def)
  have full: "getAverageFrequency (getByteFrequencyData ?an loud arr) = Fin 255"
    using avg [of loud 255] by (simp add: loud_def byte_value_def)
  have le: "nle (getAverageFrequency (getByteFrequencyData ?an silence arr))
      (getAverageFrequency (getByteFrequencyData ?an loud arr))"
    by (simp add: quiet full)
  from sphere_scale [OF g, of silence 0 loud] quiet le
  have a: "scale_after silence after_click = Some (Fin 1, Fin 1, Fin 1)"
    and b: "\<exists>k k'. scale_after silence after_click = Some (k, k, k)
          \<and> scale_after loud after_click = Some (k', k', k') \<and> nle k k'"
    by blast+
  from sphere_scale [OF g, of loud 255 loud] full
  have "scale_after loud after_click =
       Some (Fin (1 + 255 / 128), Fin (1 + 255 / 128), Fin (1 + 255 / 128))"
    by blast
  with a b show ?thesis by blast
qed

section \<open>One frame of the rose\<close>

lemma drawRose_fold:
  "foldl (\<lambda>s' i. rose_emit (petal s' rnd col i) s') s is =
     s\<lparr>rose_trace := rose_trace s @ map (petal s rnd col) is\<rparr>"
proof (induction "is" arbitrary: s)
  case Nil
  show ?case by simp
next
  case (Cons i rest)
  have p: "petal (rose_emit e s) rnd col j = petal s rnd col j" for e j
    by (simp add: petal_def rose_emit_def)
  show ?case
    by (simp add: Cons.IH p) (simp add: rose_emit_def petal_def)
qed

lemma drawRose_trace:
  "drawRose rnd col s = s\<lparr>rose_trace := rose_trace s @ map (petal s rnd col) [0..<numPetals]\<rparr>"
  by (simp add: drawRose_def drawRose_fold)

lemma drawAnimation_step:
  assumes "rose_analyser s = Some an"
  shows "drawAnimation t s =
    (let v = tick_volume an t;
         col = tick_color an t;
         s3 = s\<lparr>lastUpdateTime := now t, volume := v\<rparr>
     in (s3\<lparr>rose_trace := rose_trace s @ ClearRect # map (petal s3 (random t) col) [0..<numPetals]
                @ [DrawCenter (nmul (Fin 5) (nadd (Fin 1) (nmul v (Fin 3)))) col,
                   SetTimeout (nsub (Fin 10) (nmul v (Fin 900)))]\<rparr>, None))"
  using assms
  by (simp add: drawAnimation_def updateAudioData_def drawRose_trace drawCenterObject_def
        rose_emit_def tick_volume_def tick_color_def getAverageFrequency_def Let_def petal_def)


lemma delays_append: "delays (xs @ ys) = delays xs @ delays ys"
  by (induction xs rule: delays.induct) simp_all

lemma delays_petals: "delays (map (petal s rnd col) is) = []"
  by (induction "is") (simp_all add: petal_def Let_def)

lemma frames_petals: "count_list (map (petal s rnd col) is) RequestAnimationFrame = 0"
  by (induction "is") (simp_all add: petal_def Let_def)

lemma drawAnimation_facts:
  assumes "rose_analyser s = Some an"
  shows "\<exists>s'. drawAnimation t s = (s', None) \<and> rose_analyser s' = Some an
      \<and> volume s' = tick_volume an t
      \<and> delays (rose_trace s') = delays (rose_trace s) @ [tick_delay an t]
      \<and> last (rose_trace s') = SetTimeout (tick_delay an t)
      \<and> count_list (rose_trace s') RequestAnimationFrame =
          count_list (rose_trace s) RequestAnimationFrame"
  by (simp add: drawAnimation_step [OF assms] Let_def assms delays_append delays_petals
        frames_petals tick_delay_def)

lemma rose_frames_run:
  "rose_analyser s = Some an \<Longrightarrow>
   \<exists>s'. rose_frames ts (drawAnimation t s) = (s', None) \<and> rose_analyser s' = Some an
      \<and> volume s' = tick_volume an (last (t # ts))
      \<and> delays (rose_trace s') = delays (rose_trace s) @ map (tick_delay an) (t # ts)
      \<and> count_list (rose_trace s') RequestAnimationFrame =
          count_list (rose_trace s) RequestAnimationFrame + length ts"
proof (induction ts arbitrary: s t)
  case Nil
  with drawAnimation_facts [OF Nil, of t] show ?case by auto
next
  case (Cons t' rest)
  from drawAnimation_facts [OF Cons.prems, of t] obtain s1 where
    s1: "drawAnimation t s = (s1, None)" "rose_analyser s1 = Some an"
        "delays (rose_trace s1) = delays (rose_trace s) @ [tick_delay an t]"
        "count_list (rose_trace s1) RequestAnimationFrame =
           count_list (rose_trace s) RequestAnimationFrame"
    by blast
  let ?s2 = "timeoutCallback s1"
  have s2: "rose_analyser ?s2 = Some an"
      "delays (rose_trace ?s2) = delays (rose_trace s) @ [tick_delay an t]"
      "count_list (rose_trace ?s2) RequestAnimationFrame =
         Suc (count_list (rose_trace s) RequestAnimationFrame)"
    using s1 by (simp_all add: timeoutCallback_def rose_emit_def delays_append)
  from Cons.IH [OF s2(1), of t'] obtain s' where
    "rose_frames rest (drawAnimation t' ?s2) = (s', None)" "rose_analyser s' = Some an"
    "volume s' = tick_volume an (last (t' # rest))"
    "delays (rose_trace s') = delays (rose_trace ?s2) @ map (tick_delay an) (t' # rest)"
    "count_list (rose_trace s') RequestAnimationFrame =
       count_list (rose_trace ?s2) RequestAnimationFrame + length rest"
    by blast
  with s1(1) s2 show ?case by simp
qed

lemma tick_volume_range:
  assumes "0 < frequencyBinCount an"
  shows "\<exists>v. tick_volume an t = Fin v \<and> 0 \<le> v \<and> v \<le> 255 / 128"
proof -
  from assms have "rose_snapshot an (freq t) \<noteq> []" by (simp add: rose_snapshot_eq)
  from average_nonneg [OF this] obtain a where
    a: "getAverageFrequency (rose_snapshot an (freq t)) = Fin a" "0 \<le> a" "a \<le> 255" by blast
  have "tick_volume an t = Fin (a / 128)" by (simp add: tick_volume_def a(1))
  moreover have "0 \<le> a / 128" "a / 128 \<le> 255 / 128" using a(2,3) by simp_all
  ultimately show ?thesis by blast
qed

lemma tick_volume_loud:
  assumes "0 < frequencyBinCount an" and "\<And>i. freq t i = b"
  shows "tick_volume an t = Fin (byte_value b / 128)"
proof -
  have "rose_snapshot an (freq t) = replicate (frequencyBinCount an) b"
    unfolding rose_snapshot_eq using assms(2) by (rule map_const_upt)
  with assms(1) show ?thesis
    by (simp add: tick_volume_def getAverageFrequency_replicate)
qed

lemma demo_rose_analyser: "rose_analyser demo_rose = Some \<lparr>fftSize = 4\<rparr>"
  by (simp add: demo_rose_def rose_init_def)

lemma loud_volume: "0 < frequencyBinCount an \<Longrightarrow> tick_volume an (t\<lparr>freq := loud\<rparr>) = Fin (255 / 128)"
  using tick_volume_loud [of an "t\<lparr>freq := loud\<rparr>" 255]
  by (simp add: loud_def byte_value_def)

lemma rose_click_granted:
  "rose_click Granted t0 t (rose_init w h) =
     drawAnimation t ((rose_init w h)\<lparr>rose_analyser := Some \<lparr>fftSize = 2048\<rparr>,
        rose_trace := [GetUserMedia, HideStartButton], lastUpdateTime := t0\<rparr>)"
  by (simp add: rose_click_def rose_emit_def rose_init_def Let_def)

text \<open>
  C6. In a started rose pipeline every call of \<^verbatim>\<open>drawAnimation\<close> returns
  normally, stores the volume of the snapshot it read, and ends by handing the
  timer exactly one delay, \<open>10 - volume * 900\<close> for that volume. Whatever the
  delays, each further frame is requested and runs without an exception; in
  particular, when the delay is zero or negative the timer callback still asks
  for the next animation frame and the next call of \<^verbatim>\<open>drawAnimation\<close> returns
  normally.
\<close>

theorem rose_delay:
  assumes "rose_analyser s = Some an"
  shows "\<exists>s'. drawAnimation t s = (s', None)
      \<and> volume s' = tick_volume an t
      \<and> last (rose_trace s') = SetTimeout (nsub (Fin 10) (nmul (volume s') (Fin 900)))
      \<and> delays (rose_trace s') =
          delays (rose_trace s) @ [nsub (Fin 10) (nmul (volume s') (Fin 900))]
      \<and> (\<exists>s''. rose_frames ts (s', None) = (s'', None)
            \<and> length (delays (rose_trace s'')) = length (delays (rose_trace s')) + length ts
            \<and> count_list (rose_trace s'') RequestAnimationFrame =
                count_list (rose_trace s') RequestAnimationFrame + length ts)
      \<and> (nle (nsub (Fin 10) (nmul (volume s') (Fin 900))) (Fin 0) \<longrightarrow>
            last (rose_trace (timeoutCallback s')) = RequestAnimationFrame
            \<and> snd (drawAnimation t' (timeoutCallback s')) = None)"
proof -
  from drawAnimation_facts [OF assms, of t] obtain s' where
    s': "drawAnimation t s = (s', None)" "rose_analyser s' = Some an"
        "volume s' = tick_volume an t"
        "delays (rose_trace s') = delays (rose_trace s) @ [tick_delay an t]"
        "last (rose_trace s') = SetTimeout (tick_delay an t)"
        "count_list (rose_trace s') RequestAnimationFrame =
           count_list (rose_trace s) RequestAnimationFrame"
    by blast
  have d: "tick_delay an t = nsub (Fin 10) (nmul (volume s') (Fin 900))"
    by (simp add: tick_delay_def s'(3))
  from rose_frames_run [OF assms, of ts t] s'(1) obtain s'' where
    r: "rose_frames ts (s', None) = (s'', None)"
       "delays (rose_trace s'') = delays (rose_trace s) @ map (tick_delay an) (t # ts)"
       "count_list (rose_trace s'') RequestAnimationFrame =
          count_list (rose_trace s) RequestAnimationFrame + length ts"
    by auto
  have n: "length (delays (rose_trace s'')) = length (delays (rose_trace s')) + length ts"
    by (simp add: r(2) s'(4))
  have c: "rose_analyser (timeoutCallback s') = Some an"
    by (simp add: timeoutCallback_def rose_emit_def s'(2))
  have nxt: "last (rose_trace (timeoutCallback s')) = RequestAnimationFrame
      \<and> snd (drawAnimation t' (timeoutCallback s')) = None"
    using drawAnimation_facts [OF c, of t'] by (auto simp: timeoutCallback_def rose_emit_def)
  from s'(1,3) s'(4,5) [unfolded d] r(1) n r(3) [folded s'(6)] nxt
  show ?thesis by blast
qed


theorem rose_delay_witness:
  "rose_analyser demo_rose = Some \<lparr>fftSize = 4\<rparr>
   \<and> (\<exists>s'. drawAnimation loud_tick demo_rose = (s', None)
      \<and> volume s' = Fin (255 / 128)
      \<and> last (rose_trace s') = SetTimeout (Fin (10 - 255 / 128 * 900))
      \<and> nle (Fin (10 - 255 / 128 * 900)) (Fin 0)
      \<and> last (rose_trace (timeoutCallback s')) = RequestAnimationFrame
      \<and> snd (drawAnimation still_tick (timeoutCallback s')) = None)"
proof -
  have v: "tick_volume \<lparr>fftSize = 4\<rparr> loud_tick = Fin (255 / 128)"
    using loud_volume [of "\<lparr>fftSize = 4\<rparr>" loud_tick]
    by (simp add: frequencyBinCount_def loud_tick_def)
  from rose_delay [OF demo_rose_analyser, of loud_tick "[]" still_tick] obtain s' where
    s': "drawAnimation loud_tick demo_rose = (s', None)"
        "volume s' = tick_volume \<lparr>fftSize = 4\<rparr> loud_tick"
        "last (rose_trace s') = SetTimeout (nsub (Fin 10) (nmul (volume s') (Fin 900)))"
        "nle (nsub (Fin 10) (nmul (volume s') (Fin 900))) (Fin 0) \<longrightarrow>
            last (rose_trace (timeoutCallback s')) = RequestAnimationFrame
            \<and> snd (drawAnimation still_tick (timeoutCallback s')) = None"
    by blast
  have d: "nsub (Fin 10) (nmul (volume s') (Fin 900)) = Fin (10 - 255 / 128 * 900)"
    by (simp add: s'(2) v nsub_def)
  have neg: "nle (Fin (10 - 255 / 128 * 900)) (Fin 0)" by simp
  from s' d neg v demo_rose_analyser show ?thesis by auto
qed

text \<open>
  C7. The volume is 0 when the script loads. After the granted click and any
  number of further frames the volume is the average byte value of the last
  snapshot divided by 128, a number between 0 and 255/128. It is not clamped:
  a snapshot of bytes 255 gives 255/128, which is above 1.
\<close>

theorem rose_volume_invariant:
  "volume (rose_init w h) = Fin 0
   \<and> (\<exists>s' v. rose_frames ts (rose_click Granted t0 t (rose_init w h)) = (s', None)
        \<and> volume s' = Fin v \<and> 0 \<le> v \<and> v \<le> 255 / 128
        \<and> volume s' =
            ndiv (getAverageFrequency (rose_snapshot \<lparr>fftSize = 2048\<rparr> (freq (last (t # ts)))))
              (Fin 128))
   \<and> volume (fst (rose_click Granted t0 (t\<lparr>freq := loud\<rparr>) (rose_init w h))) = Fin (255 / 128)
   \<and> \<not> nle (Fin (255 / 128)) (Fin 1)"
proof -
  let ?an = "\<lparr>fftSize = 2048\<rparr>"
  let ?s = "(rose_init w h)\<lparr>rose_analyser := Some ?an,
        rose_trace := [GetUserMedia, HideStartButton], lastUpdateTime := t0\<rparr>"
  have an: "rose_analyser ?s = Some ?an" by simp
  have bins: "0 < frequencyBinCount ?an" by (simp add: frequencyBinCount_def)
  have init: "volume (rose_init w h) = Fin 0" by (simp add: rose_init_def)
  from rose_frames_run [OF an, of ts t] obtain s' where
    s': "rose_frames ts (drawAnimation t ?s) = (s', None)"
        "volume s' = tick_volume ?an (last (t # ts))" by blast
  from tick_volume_range [OF bins, of "last (t # ts)"] obtain v where
    v: "tick_volume ?an (last (t # ts)) = Fin v" "0 \<le> v" "v \<le> 255 / 128" by blast
  have run: "\<exists>s' v. rose_frames ts (rose_click Granted t0 t (rose_init w h)) = (s', None)
        \<and> volume s' = Fin v \<and> 0 \<le> v \<and> v \<le> 255 / 128
        \<and> volume s' =
            ndiv (getAverageFrequency (rose_snapshot ?an (freq (last (t # ts))))) (Fin 128)"
    using s' v unfolding rose_click_granted by (auto simp: tick_volume_def)
  from drawAnimation_facts [OF an, of "t\<lparr>freq := loud\<rparr>"] loud_volume [OF bins, of t]
  have lv: "volume (fst (rose_click Granted t0 (t\<lparr>freq := loud\<rparr>) (rose_init w h))) = Fin (255 / 128)"
    unfolding rose_click_granted by auto
  have "\<not> nle (Fin (255 / 128)) (Fin 1)" by simp
  with init run lv show ?thesis by blast
qed

section \<open>A spike in the middle of 2048 bytes\<close>

lemma reduce_sum_spike: "reduce_sum spike_snapshot = 255"
proof -
  have u: "unat (spike i) = (if i = 1024 then 255 else 0)" for i
    by (simp add: spike_def)
  have "sum_list (map unat spike_snapshot) = (\<Sum>i\<in>{0..<2048::nat}. if i = 1024 then 255 else (0::nat))"
    unfolding spike_snapshot_def map_map comp_def u
    by (simp only: interv_sum_list_conv_sum_set_nat set_upt)
  also have "\<dots> = (255::nat)" by (simp add: sum.delta)
  finally show ?thesis by (simp add: reduce_sum_sum_list)
qed

lemma average_spike: "getAverageFrequency spike_snapshot = Fin (255 / 2048)"
  by (simp add: getAverageFrequency_def reduce_sum_spike) (simp add: spike_snapshot_def)

lemma first_maximum_spike: "first_maximum_at spike_snapshot 1024"
proof -
  have at: "spike_snapshot ! 1024 = 255" by (simp add: spike_snapshot_def spike_def)
  have "take 1024 spike_snapshot = map spike [0..<1024]"
    by (simp add: spike_snapshot_def take_map)
  then have low: "\<forall>b \<in> set (take 1024 spike_snapshot). unat b < 255"
    by (auto simp: spike_def)
  have "\<forall>b \<in> set spike_snapshot. unat b \<le> 255" by (simp add: unat_byte_le)
  with low show ?thesis
    by (simp add: first_maximum_at_def is_maximum_at_def at) (simp add: spike_snapshot_def)
qed

lemma hue_spike: "getPitchColor spike_snapshot = Hsl (Fin 180) 100 50"
  using pitchHue_first [OF first_maximum_spike]
  by (simp add: getPitchColor_def) (simp add: spike_snapshot_def)

text \<open>
  C8. For the snapshot of 2048 bytes that is 0 except for 255 at index 1024:
  the average magnitude is 255/2048, within 0.0001 of 0.1245; the hue of the
  colour is 180; a sphere that reads this snapshot in a frame gets the scale
  1 + 255/2048/128, within 0.00001 of 1.00097; and a rose that reads it gets the
  volume 255/2048/128, within 0.0001 of 0.001.
\<close>

theorem spike_scenario:
  "getAverageFrequency spike_snapshot = Fin (255 / 2048)
   \<and> \<bar>255 / 2048 - 0.1245\<bar> < (0.0001 :: real)
   \<and> getPitchColor spike_snapshot = Hsl (Fin 180) 100 50
   \<and> getByteFrequencyData \<lparr>fftSize = 4096\<rparr> spike (new_Uint8Array 2048) = spike_snapshot
   \<and> scale_after spike wide_sphere =
       Some (Fin (1 + 255 / 2048 / 128), Fin (1 + 255 / 2048 / 128), Fin (1 + 255 / 2048 / 128))
   \<and> \<bar>1 + 255 / 2048 / 128 - 1.00097\<bar> < (0.00001 :: real)
   \<and> rose_snapshot \<lparr>fftSize = 4096\<rparr> spike = spike_snapshot
   \<and> volume (fst (updateAudioData spike wide_rose)) = Fin (255 / 2048 / 128)
   \<and> \<bar>255 / 2048 / 128 - 0.001\<bar> < (0.0001 :: real)"
proof -
  have snap: "getByteFrequencyData \<lparr>fftSize = 4096\<rparr> spike (new_Uint8Array 2048) = spike_snapshot"
    by (simp add: snapshot_within_bins frequencyBinCount_def new_Uint8Array_def spike_snapshot_def)
  have rsnap: "rose_snapshot \<lparr>fftSize = 4096\<rparr> spike = spike_snapshot"
    by (simp add: rose_snapshot_eq frequencyBinCount_def spike_snapshot_def)
  from after_click_running obtain m c where
    "sphere wide_sphere = Some m" "camera wide_sphere = Some c"
    "analyser wide_sphere = Some \<lparr>fftSize = 4096\<rparr>"
    "frequencyData wide_sphere = Some (new_Uint8Array 2048)"
    by (auto simp: wide_sphere_def)
  from scale_after_step [OF this, of spike]
  have sc: "scale_after spike wide_sphere =
       Some (Fin (1 + 255 / 2048 / 128), Fin (1 + 255 / 2048 / 128), Fin (1 + 255 / 2048 / 128))"
    by (simp add: snap average_spike)
  have "rose_analyser wide_rose = Some \<lparr>fftSize = 4096\<rparr>"
    by (simp add: wide_rose_def rose_init_def)
  from updateAudioData_volume [OF this, of spike]
  have vol: "volume (fst (updateAudioData spike wide_rose)) = Fin (255 / 2048 / 128)"
    by (simp add: rsnap average_spike)
  have n1: "\<bar>255 / 2048 - 0.1245\<bar> < (0.0001 :: real)" by simp
  have n2: "\<bar>1 + 255 / 2048 / 128 - 1.00097\<bar> < (0.00001 :: real)" by simp
  have n3: "\<bar>255 / 2048 / 128 - 0.001\<bar> < (0.0001 :: real)" by simp
  from average_spike n1 hue_spike snap sc n2 rsnap vol n3 show ?thesis by blast
qed


section \<open>A rejected microphone request\<close>

lemma sphere_click_rejected:
  "sphere_click (Rejected e) bins sphere_init =
     (sphere_init\<lparr>analyser := Some \<lparr>fftSize = 2048\<rparr>,
         camera := Some \<lparr>fov = Fin 75, position_z = Fin 10\<rparr>,
         sphere := Some \<lparr>scale = (Fin 1, Fin 1, Fin 1), rotation_x = Fin 0,
                           rotation_y = Fin 0, material_color = Hex 0xffffff\<rparr>,
         trace := [GetUserMedia, ConsoleError, AppendCanvas, AddMouseMoveListener,
                   RequestAnimationFrame]\<rparr>,
      Some TypeError)"
  by (simp add: sphere_click_def initThreeJS_def initAudio_def animate_def animate_audio_def
        emit_def sphere_init_def Let_def)

lemma initAudio_rejected:
  "initAudio (Rejected e) sphere_init =
     sphere_init\<lparr>analyser := Some \<lparr>fftSize = 2048\<rparr>, trace := [GetUserMedia, ConsoleError]\<rparr>"
  by (simp add: initAudio_def emit_def sphere_init_def Let_def)

lemma rose_click_rejected:
  "rose_click (Rejected e) t0 t (rose_init w h) =
     ((rose_init w h)\<lparr>rose_analyser := Some \<lparr>fftSize = 2048\<rparr>,
         rose_trace := [GetUserMedia, HideStartButton]\<rparr>, Some e)"
  by (simp add: rose_click_def rose_emit_def rose_init_def Let_def)

lemma rose_frames_dead: "rose_frames ts (s, Some e) = (s, Some e)"
  by (cases ts) simp_all


text \<open>
  C1, as the claim states it, fails on both scripts. With the request rejected
  by a denied permission, the click handler of the sphere script does request
  an animation frame, and the call of \<^verbatim>\<open>animate\<close> it makes throws; the rose
  script logs no diagnostic, and its rejected promise is left unhandled.
\<close>

theorem rejected_audio_counterexample:
  "RequestAnimationFrame \<in> set (trace (fst (sphere_click (Rejected NotAllowedError) silence sphere_init)))
   \<and> snd (sphere_click (Rejected NotAllowedError) silence sphere_init) = Some TypeError
   \<and> count_list (rose_trace (fst (rose_click (Rejected NotAllowedError) 0 still_tick (rose_init 300 150))))
        ConsoleError = 0
   \<and> snd (rose_click (Rejected NotAllowedError) 0 still_tick (rose_init 300 150)) = Some NotAllowedError"
  by (simp add: sphere_click_rejected rose_click_rejected)

text \<open>
  C1, amended. When the microphone request is rejected: \<^verbatim>\<open>initAudio\<close> of the
  sphere script logs exactly one diagnostic and returns normally, and the click
  handler goes on to \<^verbatim>\<open>initThreeJS\<close>, whose call of \<^verbatim>\<open>animate\<close> requests an
  animation frame; the rose script requests the microphone, hides the button
  and does nothing else, in the click handler and in any later frame: it
  schedules no animation callback and no timer, it logs no diagnostic, and the
  rejection stays unhandled.
\<close>

theorem rejected_audio:
  "trace (initAudio (Rejected e) sphere_init) = [GetUserMedia, ConsoleError]
   \<and> count_list (trace (fst (sphere_click (Rejected e) bins sphere_init))) ConsoleError = 1
   \<and> RequestAnimationFrame \<in> set (trace (fst (sphere_click (Rejected e) bins sphere_init)))
   \<and> (\<exists>s. rose_frames ts (rose_click (Rejected e) t0 t (rose_init w h)) = (s, Some e)
         \<and> rose_trace s = [GetUserMedia, HideStartButton])"
  by (simp add: sphere_click_rejected initAudio_rejected rose_click_rejected rose_frames_dead)



section \<open>The empty snapshot\<close>

text \<open>
  C10. Neither mean guards the empty snapshot: \<^verbatim>\<open>getAverageFrequency\<close> of an
  array of length 0 divides 0 by 0 and returns \<open>NaN\<close>, and \<^verbatim>\<open>updateAudioData\<close>
  with an analyser of no bins stores \<open>NaN\<close> as the volume and returns without
  an exception.
\<close>

theorem empty_snapshot_is_NaN:
  "getAverageFrequency [] = NaN
   \<and> updateAudioData bins (s\<lparr>rose_analyser := Some \<lparr>fftSize = 0\<rparr>\<rparr>) =
       (s\<lparr>rose_analyser := Some \<lparr>fftSize = 0\<rparr>, volume := NaN\<rparr>, None)"
  by (simp add: getAverageFrequency_def updateAudioData_def rose_snapshot_def
        getByteFrequencyData_def frequencyBinCount_def new_Uint8Array_def reduce_sum_def)

end
